theory Spec2Isabelle
  imports Main
begin

section \<open>Python values and exceptions used by \<open>tools/pin-cpu.py\<close>\<close>

text \<open>
  The script is run by \<open>python3\<close> (its first line says so). It talks to three libraries
  that are not part of the repository: \<open>numa\<close>, \<open>psutil\<close> and \<open>qmp\<close>. Their answers
  are parameters of the model (the record \<open>env\<close> below); what the script does with the
  answers is modelled from the script. The three \<open>import\<close> statements are taken to
  succeed. The record \<open>run_state\<close> holds what the script itself does to the outside;
  the traceback that the interpreter writes after an uncaught exception is not part of
  it.
\<close>

text \<open>A subscript of the script is a string (\<open>['return']\<close>) or an integer (\<open>[i]\<close>).\<close>

datatype pykey = KStr string | KInt int

text \<open>
  The exception classes the script can meet. \<open>ValueError\<close> stands for the class and its
  subclasses (what \<open>except ValueError\<close> catches); \<open>OtherError name msg\<close> is any exception
  outside that class and outside the three others, for example \<open>psutil.NoSuchProcess\<close>
  or \<open>ConnectionRefusedError\<close>.
\<close>

datatype pyexc =
    ValueError string
  | TypeError string
  | IndexError string
  | KeyError pykey
  | OtherError string string

text \<open>How a piece of the script stops early: an exception, or \<open>sys.exit(n)\<close>.\<close>

datatype abort = Raised pyexc | Exited int

text \<open>The objects a decoded management response is made of (no floating-point numbers).\<close>

datatype json =
    JNull
  | JBool bool
  | JInt int
  | JStr string
  | JList "json list"
  | JDict "(string \<times> json) list"

text \<open>The objects the exception handler of \<open>pin_proc\<close> operates on.\<close>

datatype pyval =
    PInt int
  | PBuiltin string
  | PFile string
  | PExc pyexc
  | PTuple "pyval list"

subsection \<open>Built-in operations\<close>

text \<open>\<open>xs[i]\<close> on a list: a negative index counts from the end, anything outside raises.\<close>

definition py_list_index :: "'a list \<Rightarrow> int \<Rightarrow> pyexc + 'a" where
  "py_list_index xs i =
     (if 0 \<le> i \<and> i < int (length xs) then Inr (xs ! nat i)
      else if i < 0 \<and> - int (length xs) \<le> i then Inr (xs ! nat (i + int (length xs)))
      else Inl (IndexError ''list index out of range''))"

text \<open>\<open>x[k]\<close> on a decoded response object.\<close>

fun py_getitem :: "json \<Rightarrow> pykey \<Rightarrow> pyexc + json" where
  "py_getitem (JDict kvs) k =
     (case k of
        KStr s \<Rightarrow> (case map_of kvs s of Some v \<Rightarrow> Inr v | None \<Rightarrow> Inl (KeyError k))
      | KInt i \<Rightarrow> Inl (KeyError k))"
| "py_getitem (JList xs) k =
     (case k of
        KInt i \<Rightarrow> py_list_index xs i
      | KStr s \<Rightarrow> Inl (TypeError ''list indices must be integers or slices, not str''))"
| "py_getitem (JStr s) k =
     (case k of
        KInt i \<Rightarrow>
          (case py_list_index s i of
             Inr c \<Rightarrow> Inr (JStr [c])
           | Inl e \<Rightarrow> Inl (IndexError ''string index out of range''))
      | KStr t \<Rightarrow> Inl (TypeError ''string indices must be integers, not 'str' ''))"
| "py_getitem (JInt n) k = Inl (TypeError '''int' object is not subscriptable'')"
| "py_getitem (JBool b) k = Inl (TypeError '''bool' object is not subscriptable'')"
| "py_getitem JNull k = Inl (TypeError '''NoneType' object is not subscriptable'')"

text \<open>
  \<open>int(s)\<close> on an ASCII string: surrounding white space (space, tab, line feed,
  vertical tab, form feed, carriage return) is dropped, one sign is allowed, then decimal
  digits, with single underscores between digits.
\<close>

definition py_isspace :: "char \<Rightarrow> bool" where
  "py_isspace c = (c = CHR '' '' \<or> (9 \<le> (of_char c :: nat) \<and> (of_char c :: nat) \<le> 13))"

definition py_isdigit :: "char \<Rightarrow> bool" where
  "py_isdigit c = (48 \<le> (of_char c :: nat) \<and> (of_char c :: nat) \<le> 57)"

definition py_strip :: "string \<Rightarrow> string" where
  "py_strip s = rev (dropWhile py_isspace (rev (dropWhile py_isspace s)))"

fun parse_digits :: "bool \<Rightarrow> int \<Rightarrow> string \<Rightarrow> int option" where
  "parse_digits prev acc [] = (if prev then Some acc else None)"
| "parse_digits prev acc (c # cs) =
     (if py_isdigit c then parse_digits True (acc * 10 + (int (of_char c) - 48)) cs
      else if c = CHR ''_'' \<and> prev then parse_digits False acc cs
      else None)"

definition py_int_of_str :: "string \<Rightarrow> pyexc + int" where
  "py_int_of_str s =
     (let bad = Inl (ValueError (''invalid literal for int() with base 10: '' @ s)) in
      case py_strip s of
        [] \<Rightarrow> bad
      | c # cs \<Rightarrow>
          if c = CHR ''-'' then (case parse_digits False 0 cs of Some n \<Rightarrow> Inr (- n) | None \<Rightarrow> bad)
          else if c = CHR ''+'' then (case parse_digits False 0 cs of Some n \<Rightarrow> Inr n | None \<Rightarrow> bad)
          else (case parse_digits False 0 (c # cs) of Some n \<Rightarrow> Inr n | None \<Rightarrow> bad))"

text \<open>\<open>int(x)\<close> on a member of a decoded response.\<close>

fun py_int :: "json \<Rightarrow> pyexc + int" where
  "py_int (JInt n) = Inr n"
| "py_int (JBool b) = Inr (if b then 1 else 0)"
| "py_int (JStr s) = py_int_of_str s"
| "py_int JNull = Inl (TypeError ''int() argument must be a string, a bytes-like object or a real number, not 'NoneType' '')"
| "py_int (JList xs) = Inl (TypeError ''int() argument must be a string, a bytes-like object or a real number, not 'list' '')"
| "py_int (JDict kvs) = Inl (TypeError ''int() argument must be a string, a bytes-like object or a real number, not 'dict' '')"

text \<open>\<open>range(n)\<close>, as the list of the integers it yields: none when \<open>n \<le> 0\<close>.\<close>

definition py_range :: "int \<Rightarrow> int list" where
  "py_range n = [0..n - 1]"

text \<open>
  \<open>a >> b\<close> in Python 3. Only integers support it among the objects here; a built-in
  function such as \<open>print\<close> has no \<open>__rshift__\<close> and a file object has no \<open>__rrshift__\<close>.
\<close>

fun exc_class_name :: "pyexc \<Rightarrow> string" where
  "exc_class_name (ValueError m) = ''ValueError''"
| "exc_class_name (TypeError m) = ''TypeError''"
| "exc_class_name (IndexError m) = ''IndexError''"
| "exc_class_name (KeyError k) = ''KeyError''"
| "exc_class_name (OtherError name m) = name"

fun py_type_name :: "pyval \<Rightarrow> string" where
  "py_type_name (PInt n) = ''int''"
| "py_type_name (PBuiltin f) = ''builtin_function_or_method''"
| "py_type_name (PFile f) = ''_io.TextIOWrapper''"
| "py_type_name (PExc e) = exc_class_name e"
| "py_type_name (PTuple vs) = ''tuple''"

fun py_rshift :: "pyval \<Rightarrow> pyval \<Rightarrow> pyexc + pyval" where
  "py_rshift (PInt a) (PInt b) =
     (if b < 0 then Inl (ValueError ''negative shift count'') else Inr (PInt (a div 2 ^ nat b)))"
| "py_rshift a b =
     Inl (TypeError (''unsupported operand type(s) for >>: '' @ py_type_name a @ '' and '' @ py_type_name b))"

section \<open>The environment and the effects of a run\<close>

text \<open>
  What the three libraries answer. \<open>qmp_cmd k c\<close> is the answer to command \<open>c\<close> when \<open>k\<close>
  commands were sent before it on the connection; \<open>psutil_cpu_affinity k pid cores\<close> is
  the outcome of \<open>psutil.Process(pid).cpu_affinity(cores)\<close> when \<open>k\<close> such calls were made
  before it (\<open>None\<close>: it returned).
\<close>

record env =
  numa_get_max_node :: int
  numa_node_to_cpus :: "int \<Rightarrow> int list"
  qmp_connect :: "string \<Rightarrow> pyexc option"
  qmp_cmd :: "nat \<Rightarrow> string \<Rightarrow> pyexc + json"
  psutil_cpu_affinity :: "nat \<Rightarrow> int \<Rightarrow> int list \<Rightarrow> pyexc option"

text \<open>What a run did to the outside, in order.\<close>

record run_state =
  connects :: "string list"
  queries :: "string list"
  stdout :: "json list"
  stderr :: "pyval list"
  affinity_calls :: "(int \<times> int list) list"

definition init_state :: run_state where
  "init_state = \<lparr>connects = [], queries = [], stdout = [], stderr = [], affinity_calls = []\<rparr>"

type_synonym 'a action = "run_state \<Rightarrow> (abort + 'a) \<times> run_state"

text \<open>Sequencing: the second statement runs only when the first one completed.\<close>

definition seq :: "'a action \<Rightarrow> ('a \<Rightarrow> 'b action) \<Rightarrow> 'b action" where
  "seq m f st = (case m st of (Inl a, st') \<Rightarrow> (Inl a, st') | (Inr x, st') \<Rightarrow> f x st')"

text \<open>An expression that changes nothing outside: it has a value or raises.\<close>

definition pure_expr :: "pyexc + 'a \<Rightarrow> 'a action" where
  "pure_expr r st = (case r of Inl e \<Rightarrow> (Inl (Raised e), st) | Inr x \<Rightarrow> (Inr x, st))"

text \<open>The status the process ends with: an uncaught exception ends it with 1.\<close>

fun exit_status :: "abort + unit \<Rightarrow> int" where
  "exit_status (Inr u) = 0"
| "exit_status (Inl (Exited n)) = n"
| "exit_status (Inl (Raised e)) = 1"

section \<open>The script\<close>

subsection \<open>\<open>onlinecpu\<close>\<close>

text \<open>
  \<^verbatim>\<open>
  def onlinecpu():
      o_cpus = []
      for node in range(0,numa.get_max_node()+1):
          for cpu in sorted(numa.node_to_cpus(node)):
              o_cpus.append(cpu)
      return o_cpus
  \<close>
  The two loops, each appending to the accumulator \<open>o_cpus\<close>.
\<close>

fun append_cpus :: "int list \<Rightarrow> int list \<Rightarrow> int list" where
  "append_cpus o_cpus [] = o_cpus"
| "append_cpus o_cpus (cpu # cpus) = append_cpus (o_cpus @ [cpu]) cpus"

fun node_loop :: "env \<Rightarrow> int list \<Rightarrow> int list \<Rightarrow> int list" where
  "node_loop e o_cpus [] = o_cpus"
| "node_loop e o_cpus (node # nodes) =
     node_loop e (append_cpus o_cpus (sort (numa_node_to_cpus e node))) nodes"

definition onlinecpu :: "env \<Rightarrow> int list" where
  "onlinecpu e = node_loop e [] [0..(numa_get_max_node e + 1) - 1]"

subsection \<open>\<open>pin_proc\<close>\<close>

text \<open>
  \<^verbatim>\<open>
  def pin_proc(pid, core):
      import psutil
      try:
          psutil.Process(pid).cpu_affinity([core])
      except ValueError as e:
          print >> sys.stderr, e
          sys.exit(1)
  \<close>
  The call of the library is recorded in \<open>affinity_calls\<close> whether it returns or raises.
\<close>

definition cpu_affinity :: "env \<Rightarrow> int \<Rightarrow> int list \<Rightarrow> unit action" where
  "cpu_affinity e pid cores st =
     (let st' = st\<lparr>affinity_calls := affinity_calls st @ [(pid, cores)]\<rparr> in
      case psutil_cpu_affinity e (length (affinity_calls st)) pid cores of
        None \<Rightarrow> (Inr (), st')
      | Some x \<Rightarrow> (Inl (Raised x), st'))"

text \<open>
  The first statement of the handler is an expression statement in Python 3: the tuple
  of \<open>print >> sys.stderr\<close> and \<open>e\<close>, evaluated left to right and discarded. It writes
  nothing.
\<close>

definition print_chevron_stmt :: "pyexc \<Rightarrow> pyval action" where
  "print_chevron_stmt x =
     seq (pure_expr (py_rshift (PBuiltin ''print'') (PFile ''<stderr>'')))
       (\<lambda>v. pure_expr (Inr (PTuple [v, PExc x])))"

definition sys_exit :: "int \<Rightarrow> unit action" where
  "sys_exit n st = (Inl (Exited n), st)"

definition handler :: "pyexc \<Rightarrow> unit action" where
  "handler x = seq (print_chevron_stmt x) (\<lambda>v. sys_exit 1)"

fun is_ValueError :: "pyexc \<Rightarrow> bool" where
  "is_ValueError (ValueError m) = True"
| "is_ValueError x = False"

definition pin_proc :: "env \<Rightarrow> int \<Rightarrow> int \<Rightarrow> unit action" where
  "pin_proc e pid core st =
     (case cpu_affinity e pid [core] st of
        (Inl (Raised x), st') \<Rightarrow>
          if is_ValueError x then handler x st' else (Inl (Raised x), st')
      | (Inl (Exited n), st') \<Rightarrow> (Inl (Exited n), st')
      | (Inr u, st') \<Rightarrow> (Inr u, st'))"

subsection \<open>The main flow\<close>

text \<open>
  \<^verbatim>\<open>
  query = qmp.QMPQuery("localhost:%s" % (sys.argv[1]))
  print(query.cmd("query-cpus-fast"))
  response = query.cmd("query-cpus-fast")['return']
  o_cpus = [x for x in range(int(sys.argv[2]))]

  for i in range(int(sys.argv[2])):
      pin_proc(int(response[i]['thread-id']), o_cpus[i])
  \<close>
\<close>

definition QMPQuery :: "env \<Rightarrow> string \<Rightarrow> unit action" where
  "QMPQuery e addr st =
     (let st' = st\<lparr>connects := connects st @ [addr]\<rparr> in
      case qmp_connect e addr of
        None \<Rightarrow> (Inr (), st')
      | Some x \<Rightarrow> (Inl (Raised x), st'))"

definition query_cmd :: "env \<Rightarrow> string \<Rightarrow> json action" where
  "query_cmd e c st =
     (let st' = st\<lparr>queries := queries st @ [c]\<rparr> in
      case qmp_cmd e (length (queries st)) c of
        Inr r \<Rightarrow> (Inr r, st')
      | Inl x \<Rightarrow> (Inl (Raised x), st'))"

definition py_print :: "json \<Rightarrow> unit action" where
  "py_print v st = (Inr (), st\<lparr>stdout := stdout st @ [v]\<rparr>)"

text \<open>\<open>int(sys.argv[2])\<close>\<close>

definition int_argv2 :: "string list \<Rightarrow> pyexc + int" where
  "int_argv2 argv = (case py_list_index argv 2 of Inl x \<Rightarrow> Inl x | Inr a \<Rightarrow> py_int_of_str a)"

text \<open>\<open>int(response[i]['thread-id'])\<close>\<close>

definition thread_id :: "json \<Rightarrow> int \<Rightarrow> pyexc + int" where
  "thread_id response i =
     (case py_getitem response (KInt i) of
        Inl x \<Rightarrow> Inl x
      | Inr entry \<Rightarrow>
          (case py_getitem entry (KStr ''thread-id'') of
             Inl x \<Rightarrow> Inl x
           | Inr t \<Rightarrow> py_int t))"

text \<open>The body of the loop: the two arguments left to right, then the call.\<close>

definition loop_body :: "env \<Rightarrow> json \<Rightarrow> int list \<Rightarrow> int \<Rightarrow> unit action" where
  "loop_body e response o_cpus i =
     seq (pure_expr (thread_id response i)) (\<lambda>pid.
     seq (pure_expr (py_list_index o_cpus i)) (\<lambda>core.
     pin_proc e pid core))"

fun pin_loop :: "env \<Rightarrow> json \<Rightarrow> int list \<Rightarrow> int list \<Rightarrow> unit action" where
  "pin_loop e response o_cpus [] st = (Inr (), st)"
| "pin_loop e response o_cpus (i # rest) st =
     (case loop_body e response o_cpus i st of
        (Inl a, st') \<Rightarrow> (Inl a, st')
      | (Inr u, st') \<Rightarrow> pin_loop e response o_cpus rest st')"

text \<open>\<open>[x for x in range(n)]\<close>\<close>

definition main_o_cpus :: "int \<Rightarrow> int list" where
  "main_o_cpus n = map (\<lambda>x. x) (py_range n)"

definition main :: "env \<Rightarrow> string list \<Rightarrow> (abort + unit) \<times> run_state" where
  "main e argv =
     (seq (pure_expr (py_list_index argv 1)) (\<lambda>port.
      seq (QMPQuery e (''localhost:'' @ port)) (\<lambda>query.
      seq (query_cmd e ''query-cpus-fast'') (\<lambda>shown.
      seq (py_print shown) (\<lambda>u.
      seq (query_cmd e ''query-cpus-fast'') (\<lambda>answer.
      seq (pure_expr (py_getitem answer (KStr ''return''))) (\<lambda>response.
      seq (pure_expr (int_argv2 argv)) (\<lambda>n.
      seq (pure_expr (int_argv2 argv)) (\<lambda>m.
      pin_loop e response (main_o_cpus n) (py_range m)))))))))) init_state"

subsection \<open>Concrete hosts and virtual machines\<close>

text \<open>A host with NUMA nodes \<open>{0: [2,0], 1: [3,1]}\<close>.\<close>

definition two_node_cpus :: "int \<Rightarrow> int list" where
  "two_node_cpus node = (if node = 0 then [2, 0] else if node = 1 then [3, 1] else [])"

text \<open>A management response listing one virtual CPU per given thread id.\<close>

definition cpus_fast :: "int list \<Rightarrow> json" where
  "cpus_fast tids =
     JDict [(''return'', JList (map (\<lambda>t. JDict [(''cpu-index'', JInt 0), (''thread-id'', JInt t)]) tids))]"

text \<open>
  A machine whose virtual CPUs run on the given threads, on the two-node host; \<open>aff\<close>
  is what the affinity call does.
\<close>

definition vm_env :: "int list \<Rightarrow> (nat \<Rightarrow> int \<Rightarrow> int list \<Rightarrow> pyexc option) \<Rightarrow> env" where
  "vm_env tids aff =
     \<lparr>numa_get_max_node = 1, numa_node_to_cpus = two_node_cpus,
      qmp_connect = (\<lambda>addr. None), qmp_cmd = (\<lambda>k c. Inr (cpus_fast tids)),
      psutil_cpu_affinity = aff\<rparr>"

text \<open>A machine whose first and second answers list the given thread ids.\<close>

definition vm_env_changing ::
  "int list \<Rightarrow> int list \<Rightarrow> (nat \<Rightarrow> int \<Rightarrow> int list \<Rightarrow> pyexc option) \<Rightarrow> env" where
  "vm_env_changing first second aff =
     \<lparr>numa_get_max_node = 1, numa_node_to_cpus = two_node_cpus,
      qmp_connect = (\<lambda>addr. None),
      qmp_cmd = (\<lambda>k c. Inr (cpus_fast (if k = 0 then first else second))),
      psutil_cpu_affinity = aff\<rparr>"

definition aff_ok :: "nat \<Rightarrow> int \<Rightarrow> int list \<Rightarrow> pyexc option" where
  "aff_ok k pid cores = None"

text \<open>The affinity call refuses core 1 as invalid.\<close>

definition aff_invalid_core :: "nat \<Rightarrow> int \<Rightarrow> int list \<Rightarrow> pyexc option" where
  "aff_invalid_core k pid cores =
     (if cores = [1] then Some (ValueError ''invalid CPU 1; choose between [0]'') else None)"

text \<open>Thread 222 does not exist: \<open>psutil.Process(222)\<close> raises \<open>NoSuchProcess\<close>.\<close>

definition aff_no_thread :: "nat \<Rightarrow> int \<Rightarrow> int list \<Rightarrow> pyexc option" where
  "aff_no_thread k pid cores =
     (if pid = 222 then Some (OtherError ''psutil.NoSuchProcess'' ''process no longer exists (pid=222)'')
      else None)"

section \<open>Properties\<close>

subsection \<open>Auxiliary facts about the loops\<close>

lemma append_cpus_eq: "append_cpus acc cpus = acc @ cpus"
  by (induction cpus arbitrary: acc) simp_all

lemma node_loop_eq:
  "node_loop e acc nodes = acc @ concat (map (\<lambda>node. sort (numa_node_to_cpus e node)) nodes)"
  by (induction nodes arbitrary: acc) (simp_all add: append_cpus_eq)

lemma py_range_upt: "py_range n = map int [0..<nat n]"
proof (cases "0 \<le> n")
  case True
  then obtain k where k: "n = int k" using nonneg_int_cases by blast
  have "[0..int k - 1] = map int [0..<k]"
  proof (induction k)
    case 0 show ?case by simp
  next
    case (Suc k)
    have "[0..int (Suc k) - 1] = [0..int k - 1] @ [int k]"
      using upto_rec2[of 0 "int k"] by simp
    with Suc show ?case by simp
  qed
  with k show ?thesis by (simp add: py_range_def)
next
  case False
  then show ?thesis by (simp add: py_range_def)
qed

lemma main_o_cpus_index:
  "0 \<le> i \<Longrightarrow> i < n \<Longrightarrow> py_list_index (main_o_cpus n) i = Inr i"
  by (simp add: main_o_cpus_def py_range_upt py_list_index_def)

lemma handler_raises:
  "handler x st = (Inl (Raised (TypeError ''unsupported operand type(s) for >>: builtin_function_or_method and _io.TextIOWrapper'')), st)"
  by (simp add: handler_def print_chevron_stmt_def seq_def pure_expr_def)

lemma pin_proc_eq:
  "pin_proc e pid core st =
     ((case psutil_cpu_affinity e (length (affinity_calls st)) pid [core] of
         None \<Rightarrow> Inr ()
       | Some x \<Rightarrow> if is_ValueError x
           then Inl (Raised (TypeError ''unsupported operand type(s) for >>: builtin_function_or_method and _io.TextIOWrapper''))
           else Inl (Raised x)),
      st\<lparr>affinity_calls := affinity_calls st @ [(pid, [core])]\<rparr>)"
  by (simp add: pin_proc_def cpu_affinity_def handler_raises Let_def split: option.splits)

lemma loop_body_eq:
  "loop_body e r oc i st =
     (case thread_id r i of
        Inl x \<Rightarrow> (Inl (Raised x), st)
      | Inr pid \<Rightarrow>
          (case py_list_index oc i of
             Inl x \<Rightarrow> (Inl (Raised x), st)
           | Inr core \<Rightarrow> pin_proc e pid core st))"
  by (simp add: loop_body_def seq_def pure_expr_def split: sum.splits)

lemma loop_body_not_exited: "fst (loop_body e r oc i st) \<noteq> Inl (Exited n)"
  by (simp add: loop_body_eq pin_proc_eq split: sum.splits option.splits)

lemma pin_loop_not_exited: "fst (pin_loop e r oc is st) \<noteq> Inl (Exited n)"
proof (induction "is" arbitrary: st)
  case Nil
  show ?case by simp
next
  case (Cons i rest)
  show ?case
  proof (cases "loop_body e r oc i st")
    case (Pair res st')
    show ?thesis
    proof (cases res)
      case (Inl a)
      with Pair loop_body_not_exited[of e r oc i st n] show ?thesis by simp
    next
      case (Inr u)
      with Pair Cons.IH[of st'] show ?thesis by simp
    qed
  qed
qed

lemma pin_loop_trace:
  "\<exists>n\<le>length is. snd (pin_loop e r oc is st) =
     st\<lparr>affinity_calls := affinity_calls st @
        map (\<lambda>i. (projr (thread_id r i), [projr (py_list_index oc i)])) (take n is)\<rparr>"
proof (induction "is" arbitrary: st)
  case Nil
  show ?case by simp
next
  case (Cons i rest)
  let ?f = "\<lambda>i. (projr (thread_id r i), [projr (py_list_index oc i)])"
  show ?case
  proof (cases "thread_id r i")
    case (Inl x)
    then have "snd (pin_loop e r oc (i # rest) st) = st" by (simp add: loop_body_eq)
    then show ?thesis by (intro exI[of _ 0]) simp
  next
    case pid: (Inr pid)
    show ?thesis
    proof (cases "py_list_index oc i")
      case (Inl x)
      with pid have "snd (pin_loop e r oc (i # rest) st) = st" by (simp add: loop_body_eq)
      then show ?thesis by (intro exI[of _ 0]) simp
    next
      case core: (Inr core)
      let ?st1 = "st\<lparr>affinity_calls := affinity_calls st @ [(pid, [core])]\<rparr>"
      have body: "snd (loop_body e r oc i st) = ?st1"
        using pid core by (simp add: loop_body_eq pin_proc_eq)
      show ?thesis
      proof (cases "fst (loop_body e r oc i st)")
        case (Inl a)
        with body have "snd (pin_loop e r oc (i # rest) st) = ?st1"
          by (cases "loop_body e r oc i st") simp
        with pid core show ?thesis by (intro exI[of _ 1]) simp
      next
        case (Inr u)
        with body have step: "pin_loop e r oc (i # rest) st = pin_loop e r oc rest ?st1"
          by (cases "loop_body e r oc i st") simp
        from Cons.IH[of ?st1] obtain n where n: "n \<le> length rest"
          and eq: "snd (pin_loop e r oc rest ?st1) =
            ?st1\<lparr>affinity_calls := affinity_calls ?st1 @ map ?f (take n rest)\<rparr>"
          by blast
        from n eq step pid core show ?thesis by (intro exI[of _ "Suc n"]) simp
      qed
    qed
  qed
qed

lemma main_run:
  assumes "py_list_index argv 1 = Inr port"
    and "qmp_connect e (''localhost:'' @ port) = None"
    and "qmp_cmd e 0 ''query-cpus-fast'' = Inr shown"
    and "qmp_cmd e 1 ''query-cpus-fast'' = Inr answer"
    and "py_getitem answer (KStr ''return'') = Inr response"
    and "int_argv2 argv = Inr n"
  shows "main e argv = pin_loop e response (main_o_cpus n) (py_range n)
     \<lparr>connects = [''localhost:'' @ port],
      queries = [''query-cpus-fast'', ''query-cpus-fast''],
      stdout = [shown], stderr = [], affinity_calls = []\<rparr>"
  using assms
  by (simp add: main_def seq_def pure_expr_def QMPQuery_def query_cmd_def py_print_def
      init_state_def Let_def)

lemma main_cases:
  "(\<exists>response n st0. main e argv = pin_loop e response (main_o_cpus n) (py_range n) st0
      \<and> int_argv2 argv = Inr n
      \<and> affinity_calls st0 = [] \<and> stderr st0 = []
      \<and> queries st0 = [''query-cpus-fast'', ''query-cpus-fast''])
   \<or> (\<exists>x st. main e argv = (Inl (Raised x), st) \<and> affinity_calls st = [] \<and> stderr st = []
      \<and> length (queries st) \<le> 2)"
  apply (simp add: main_def seq_def pure_expr_def QMPQuery_def query_cmd_def py_print_def
      init_state_def Let_def split: sum.splits option.splits)
  apply (intro allI impI disjI1 exI conjI)
     apply (rule refl)
    apply simp_all
  done

lemma pin_loop_all_ok:
  assumes "length (affinity_calls st) = k"
    and "\<forall>i. k \<le> i \<and> i < n \<longrightarrow>
        thread_id r (int i) = Inr (tids ! i) \<and> py_list_index oc (int i) = Inr (int i)
        \<and> psutil_cpu_affinity e i (tids ! i) [int i] = None"
  shows "pin_loop e r oc (map int [k..<n]) st =
     (Inr (), st\<lparr>affinity_calls := affinity_calls st @ map (\<lambda>i. (tids ! i, [int i])) [k..<n]\<rparr>)"
  using assms
proof (induction "n - k" arbitrary: k st)
  case 0
  then show ?case by simp
next
  case (Suc d)
  then have kn: "k < n" by simp
  let ?st1 = "st\<lparr>affinity_calls := affinity_calls st @ [(tids ! k, [int k])]\<rparr>"
  from Suc.prems kn have body: "loop_body e r oc (int k) st = (Inr (), ?st1)"
    by (simp add: loop_body_eq pin_proc_eq)
  have "pin_loop e r oc (map int [Suc k..<n]) ?st1 =
     (Inr (), ?st1\<lparr>affinity_calls := affinity_calls ?st1 @ map (\<lambda>i. (tids ! i, [int i])) [Suc k..<n]\<rparr>)"
    using Suc.hyps(2) Suc.prems by (intro Suc.hyps(1)) auto
  with body kn show ?case by (simp add: upt_conv_Cons)
qed

lemma thread_id_beyond:
  "int (length entries) \<le> i \<Longrightarrow>
     thread_id (JList entries) i = Inl (IndexError ''list index out of range'')"
  by (simp add: thread_id_def py_list_index_def)

lemma pin_loop_short_response:
  assumes "length (affinity_calls st) = k" and "k \<le> length entries"
  shows "length (affinity_calls (snd (pin_loop e (JList entries) oc (map int [k..<n]) st)))
     \<le> length entries"
  using assms
proof (induction "n - k" arbitrary: k st)
  case 0
  then show ?case by simp
next
  case (Suc d)
  then have kn: "k < n" by simp
  show ?case
  proof (cases "loop_body e (JList entries) oc (int k) st")
    case (Pair res st')
    show ?thesis
    proof (cases "k < length entries")
      case False
      with Suc.prems have "thread_id (JList entries) (int k) = Inl (IndexError ''list index out of range'')"
        by (intro thread_id_beyond) simp
      with kn Suc.prems show ?thesis by (simp add: upt_conv_Cons loop_body_eq)
    next
      case True
      have st': "affinity_calls st' = affinity_calls st \<or> length (affinity_calls st') = Suc k"
        using Pair Suc.prems(1)
        by (auto simp add: loop_body_eq pin_proc_eq split: sum.splits)
      show ?thesis
      proof (cases res)
        case (Inl a)
        with Pair kn st' True Suc.prems show ?thesis by (auto simp add: upt_conv_Cons)
      next
        case (Inr u)
        with Pair have "length (affinity_calls st') = Suc k"
          using Suc.prems(1) by (auto simp add: loop_body_eq pin_proc_eq split: sum.splits)
        then have "length (affinity_calls (snd (pin_loop e (JList entries) oc (map int [Suc k..<n]) st')))
           \<le> length entries"
          using Suc.hyps(2) True by (intro Suc.hyps(1)) auto
        with Pair Inr kn show ?thesis by (simp add: upt_conv_Cons)
      qed
    qed
  qed
qed

lemma pin_loop_raises:
  assumes "i \<in> set is" and "thread_id r i = Inl x"
  shows "\<exists>y. fst (pin_loop e r oc is st) = Inl (Raised y)"
  using assms
proof (induction "is" arbitrary: st)
  case Nil
  then show ?case by simp
next
  case (Cons j rest)
  show ?case
  proof (cases "loop_body e r oc j st")
    case (Pair res st')
    show ?thesis
    proof (cases res)
      case (Inl a)
      with Pair loop_body_not_exited[of e r oc j st] show ?thesis
        by (cases a) auto
    next
      case (Inr u)
      with Pair Cons.prems have "i \<noteq> j" by (auto simp add: loop_body_eq)
      with Cons have "\<exists>y. fst (pin_loop e r oc rest st') = Inl (Raised y)" by simp
      with Pair Inr show ?thesis by simp
    qed
  qed
qed

lemma pin_loop_frame:
  "connects (snd (pin_loop e r oc is st)) = connects st
   \<and> queries (snd (pin_loop e r oc is st)) = queries st
   \<and> stdout (snd (pin_loop e r oc is st)) = stdout st
   \<and> stderr (snd (pin_loop e r oc is st)) = stderr st"
proof -
  from pin_loop_trace[of "is" e r oc st] obtain n where
    "snd (pin_loop e r oc is st) = st\<lparr>affinity_calls := affinity_calls st @
        map (\<lambda>i. (projr (thread_id r i), [projr (py_list_index oc i)])) (take n is)\<rparr>"
    by blast
  then show ?thesis by simp
qed

lemma pin_loop_append:
  "pin_loop e r oc (xs @ ys) st =
     (case pin_loop e r oc xs st of
        (Inl a, st') \<Rightarrow> (Inl a, st')
      | (Inr u, st') \<Rightarrow> pin_loop e r oc ys st')"
  by (induction xs arbitrary: st) (simp_all split: prod.splits sum.splits)

lemma pin_loop_numa:
  "pin_loop (e\<lparr>numa_get_max_node := m, numa_node_to_cpus := f\<rparr>) r oc is st = pin_loop e r oc is st"
  by (induction "is" arbitrary: st) (simp_all add: loop_body_eq pin_proc_eq split: sum.splits)

lemma main_calls_shape:
  "\<exists>n r. affinity_calls (snd (main e argv)) = map (\<lambda>i. (projr (thread_id r (int i)), [int i])) [0..<n]
     \<and> (\<forall>N. int_argv2 argv = Inr N \<longrightarrow> n \<le> nat N)"
proof -
  from main_cases[of e argv] show ?thesis
  proof (elim disjE exE conjE)
    fix response N st0
    assume run: "main e argv = pin_loop e response (main_o_cpus N) (py_range N) st0"
      and N: "int_argv2 argv = Inr N" and st0: "affinity_calls st0 = []"
    let ?f = "\<lambda>i. (projr (thread_id response i), [projr (py_list_index (main_o_cpus N) i)])"
    from pin_loop_trace[of "py_range N" e response "main_o_cpus N" st0] obtain n where
      n: "n \<le> length (py_range N)" and
      tr: "snd (pin_loop e response (main_o_cpus N) (py_range N) st0) =
        st0\<lparr>affinity_calls := affinity_calls st0 @ map ?f (take n (py_range N))\<rparr>"
      by blast
    from n have nN: "n \<le> nat N" by (simp add: py_range_upt)
    then have tk: "take n (py_range N) = map int [0..<n]"
      by (simp add: py_range_upt take_map min_def)
    have "map ?f (map int [0..<n]) = map (\<lambda>i. (projr (thread_id response (int i)), [int i])) [0..<n]"
      using nN by (simp add: main_o_cpus_index)
    with run tr st0 tk have "affinity_calls (snd (main e argv)) =
        map (\<lambda>i. (projr (thread_id response (int i)), [int i])) [0..<n]"
      by simp
    with N nN show ?thesis by (intro exI[of _ n] exI[of _ response]) simp
  next
    fix x st
    assume "main e argv = (Inl (Raised x), st)" and "affinity_calls st = []"
    then show ?thesis by (intro exI[of _ 0]) simp
  qed
qed

lemma main_numa:
  "main (e\<lparr>numa_get_max_node := m, numa_node_to_cpus := f\<rparr>) argv = main e argv"
proof -
  let ?e = "e\<lparr>numa_get_max_node := m, numa_node_to_cpus := f\<rparr>"
  have "QMPQuery ?e = QMPQuery e"
    by (intro ext) (simp add: QMPQuery_def)
  moreover have "query_cmd ?e = query_cmd e"
    by (intro ext) (simp add: query_cmd_def)
  moreover have "pin_loop ?e = pin_loop e"
    by (intro ext) (rule pin_loop_numa)
  ultimately show ?thesis by (simp add: main_def)
qed

lemma loop_body_beyond:
  "int (length entries) \<le> i \<Longrightarrow>
     loop_body e (JList entries) oc i st = (Inl (Raised (IndexError ''list index out of range'')), st)"
  by (simp add: loop_body_eq thread_id_beyond)

lemma pin_loop_trace_ok:
  "\<exists>n\<le>length is.
     snd (pin_loop e r oc is st) =
       st\<lparr>affinity_calls := affinity_calls st @
          map (\<lambda>i. (projr (thread_id r i), [projr (py_list_index oc i)])) (take n is)\<rparr>
     \<and> (\<forall>i\<in>set (take n is). thread_id r i = Inr (projr (thread_id r i))
            \<and> py_list_index oc i = Inr (projr (py_list_index oc i)))"
proof (induction "is" arbitrary: st)
  case Nil
  show ?case by simp
next
  case (Cons i rest)
  let ?f = "\<lambda>i. (projr (thread_id r i), [projr (py_list_index oc i)])"
  let ?good = "\<lambda>i. thread_id r i = Inr (projr (thread_id r i))
            \<and> py_list_index oc i = Inr (projr (py_list_index oc i))"
  show ?case
  proof (cases "thread_id r i")
    case (Inl x)
    then have "snd (pin_loop e r oc (i # rest) st) = st" by (simp add: loop_body_eq)
    then show ?thesis by (intro exI[of _ 0]) simp
  next
    case pid: (Inr pid)
    show ?thesis
    proof (cases "py_list_index oc i")
      case (Inl x)
      with pid have "snd (pin_loop e r oc (i # rest) st) = st" by (simp add: loop_body_eq)
      then show ?thesis by (intro exI[of _ 0]) simp
    next
      case core: (Inr core)
      have good: "?good i" using pid core by simp
      let ?st1 = "st\<lparr>affinity_calls := affinity_calls st @ [(pid, [core])]\<rparr>"
      have body: "snd (loop_body e r oc i st) = ?st1"
        using pid core by (simp add: loop_body_eq pin_proc_eq)
      show ?thesis
      proof (cases "fst (loop_body e r oc i st)")
        case (Inl a)
        with body have "snd (pin_loop e r oc (i # rest) st) = ?st1"
          by (cases "loop_body e r oc i st") simp
        with pid core show ?thesis by (intro exI[of _ 1]) simp
      next
        case (Inr u)
        with body have step: "pin_loop e r oc (i # rest) st = pin_loop e r oc rest ?st1"
          by (cases "loop_body e r oc i st") simp
        from Cons.IH[of ?st1] obtain n where n: "n \<le> length rest"
          and eq: "snd (pin_loop e r oc rest ?st1) =
            ?st1\<lparr>affinity_calls := affinity_calls ?st1 @ map ?f (take n rest)\<rparr>"
          and ok: "\<forall>j\<in>set (take n rest). ?good j"
          by blast
        from n eq ok step pid core show ?thesis by (intro exI[of _ "Suc n"]) simp
      qed
    qed
  qed
qed

lemma pin_loop_calls_mono:
  "length (affinity_calls st) \<le> length (affinity_calls (snd (pin_loop e r oc is st)))"
proof -
  from pin_loop_trace[of "is" e r oc st] obtain n where
    "snd (pin_loop e r oc is st) = st\<lparr>affinity_calls := affinity_calls st @
        map (\<lambda>i. (projr (thread_id r i), [projr (py_list_index oc i)])) (take n is)\<rparr>"
    by blast
  then show ?thesis by simp
qed

lemma pin_loop_head_call:
  assumes "thread_id r i = Inr t" and "py_list_index oc i = Inr c"
  shows "length (affinity_calls st) < length (affinity_calls (snd (pin_loop e r oc (i # rest) st)))"
proof -
  let ?st1 = "st\<lparr>affinity_calls := affinity_calls st @ [(t, [c])]\<rparr>"
  have body: "snd (loop_body e r oc i st) = ?st1"
    using assms by (simp add: loop_body_eq pin_proc_eq)
  show ?thesis
  proof (cases "fst (loop_body e r oc i st)")
    case (Inl a)
    with body have "snd (pin_loop e r oc (i # rest) st) = ?st1"
      by (cases "loop_body e r oc i st") simp
    then show ?thesis by simp
  next
    case (Inr u)
    with body have "pin_loop e r oc (i # rest) st = pin_loop e r oc rest ?st1"
      by (cases "loop_body e r oc i st") simp
    with pin_loop_calls_mono[of ?st1 e r oc rest] show ?thesis by simp
  qed
qed

lemma main_calls:
  assumes "py_list_index argv 1 = Inr port"
    and "qmp_connect e (''localhost:'' @ port) = None"
    and "qmp_cmd e 0 ''query-cpus-fast'' = Inr shown"
    and "qmp_cmd e 1 ''query-cpus-fast'' = Inr answer"
    and "py_getitem answer (KStr ''return'') = Inr response"
    and "int_argv2 argv = Inr N"
  shows "length (affinity_calls (snd (main e argv))) \<le> nat N
     \<and> (\<forall>k<length (affinity_calls (snd (main e argv))).
          thread_id response (int k) = Inr (fst (affinity_calls (snd (main e argv)) ! k))
          \<and> snd (affinity_calls (snd (main e argv)) ! k) = [int k])"
proof -
  let ?st0 = "\<lparr>connects = [''localhost:'' @ port],
      queries = [''query-cpus-fast'', ''query-cpus-fast''],
      stdout = [shown], stderr = [], affinity_calls = []\<rparr>"
  let ?f = "\<lambda>i. (projr (thread_id response i), [projr (py_list_index (main_o_cpus N) i)])"
  have run: "main e argv = pin_loop e response (main_o_cpus N) (map int [0..<nat N]) ?st0"
    using assms by (simp add: main_run py_range_upt)
  from pin_loop_trace_ok[of "map int [0..<nat N]" e response "main_o_cpus N" ?st0]
  obtain n where n: "n \<le> nat N"
    and tr: "snd (pin_loop e response (main_o_cpus N) (map int [0..<nat N]) ?st0) =
       ?st0\<lparr>affinity_calls := affinity_calls ?st0 @ map ?f (take n (map int [0..<nat N]))\<rparr>"
    and ok: "\<forall>i\<in>set (take n (map int [0..<nat N])).
        thread_id response i = Inr (projr (thread_id response i))"
    by auto
  have tk: "take n (map int [0..<nat N]) = map int [0..<n]"
    using n by (simp add: take_map min_def)
  have calls: "affinity_calls (snd (main e argv)) = map ?f (map int [0..<n])"
    using run tr tk by simp
  have "thread_id response (int k) = Inr (fst (affinity_calls (snd (main e argv)) ! k))
      \<and> snd (affinity_calls (snd (main e argv)) ! k) = [int k]"
    if "k < length (affinity_calls (snd (main e argv)))" for k
  proof -
    from that calls have kn: "k < n" by simp
    with ok tk have "thread_id response (int k) = Inr (projr (thread_id response (int k)))"
      by simp
    moreover from kn n have "py_list_index (main_o_cpus N) (int k) = Inr (int k)"
      by (intro main_o_cpus_index) auto
    ultimately show ?thesis using calls kn by simp
  qed
  with calls n show ?thesis by simp
qed

lemma main_progress:
  assumes "py_list_index argv 1 = Inr port"
    and "qmp_connect e (''localhost:'' @ port) = None"
    and "qmp_cmd e 0 ''query-cpus-fast'' = Inr shown"
    and "qmp_cmd e 1 ''query-cpus-fast'' = Inr answer"
    and "py_getitem answer (KStr ''return'') = Inr response"
    and "int_argv2 argv = Inr N"
    and "k < nat N"
    and "\<forall>i<k. psutil_cpu_affinity e i (tids ! i) [int i] = None"
    and "\<forall>i\<le>k. thread_id response (int i) = Inr (tids ! i)"
  shows "k < length (affinity_calls (snd (main e argv)))"
proof -
  let ?st0 = "\<lparr>connects = [''localhost:'' @ port],
      queries = [''query-cpus-fast'', ''query-cpus-fast''],
      stdout = [shown], stderr = [], affinity_calls = []\<rparr>"
  let ?loop = "pin_loop e response (main_o_cpus N)"
  let ?st1 = "?st0\<lparr>affinity_calls := affinity_calls ?st0 @ map (\<lambda>i. (tids ! i, [int i])) [0..<k]\<rparr>"
  have run: "main e argv = ?loop (map int [0..<nat N]) ?st0"
    using assms(1-6) by (simp add: main_run py_range_upt)
  have split: "[0..<nat N] = [0..<k] @ k # [Suc k..<nat N]"
  proof -
    have a: "[0..<nat N] = [0..<k] @ [k..<nat N]"
      using assms(7) upt_add_eq_append[of 0 k "nat N - k"] by simp
    have b: "[k..<nat N] = k # [Suc k..<nat N]"
      using assms(7) by (rule upt_conv_Cons)
    show ?thesis by (subst a, subst b) (rule refl)
  qed
  have first: "?loop (map int [0..<k]) ?st0 = (Inr (), ?st1)"
    using assms(7-9) by (intro pin_loop_all_ok) (auto simp add: main_o_cpus_index)
  have "main e argv = ?loop (map int [0..<k] @ int k # map int [Suc k..<nat N]) ?st0"
    unfolding run by (subst split) simp
  also have "\<dots> = (case ?loop (map int [0..<k]) ?st0 of
        (Inl a, st') \<Rightarrow> (Inl a, st')
      | (Inr u, st') \<Rightarrow> ?loop (int k # map int [Suc k..<nat N]) st')"
    by (rule pin_loop_append)
  also have "\<dots> = ?loop (int k # map int [Suc k..<nat N]) ?st1"
    unfolding first by simp
  finally have eq: "main e argv = ?loop (int k # map int [Suc k..<nat N]) ?st1" .
  have "thread_id response (int k) = Inr (tids ! k)" using assms(9) by simp
  moreover have "py_list_index (main_o_cpus N) (int k) = Inr (int k)"
    using assms(7) by (intro main_o_cpus_index) auto
  ultimately have "length (affinity_calls ?st1)
      < length (affinity_calls (snd (?loop (int k # map int [Suc k..<nat N]) ?st1)))"
    by (rule pin_loop_head_call)
  with eq show ?thesis by simp
qed

lemma main_all_ok:
  assumes "py_list_index argv 1 = Inr port"
    and "qmp_connect e (''localhost:'' @ port) = None"
    and "qmp_cmd e 0 ''query-cpus-fast'' = Inr shown"
    and "qmp_cmd e 1 ''query-cpus-fast'' = Inr answer"
    and "py_getitem answer (KStr ''return'') = Inr response"
    and "int_argv2 argv = Inr N"
    and "\<forall>i<nat N. thread_id response (int i) = Inr (tids ! i)
          \<and> psutil_cpu_affinity e i (tids ! i) [int i] = None"
  shows "affinity_calls (snd (main e argv)) = map (\<lambda>i. (tids ! i, [int i])) [0..<nat N]"
proof -
  let ?st0 = "\<lparr>connects = [''localhost:'' @ port],
      queries = [''query-cpus-fast'', ''query-cpus-fast''],
      stdout = [shown], stderr = [], affinity_calls = []\<rparr>"
  have run: "main e argv = pin_loop e response (main_o_cpus N) (map int [0..<nat N]) ?st0"
    using assms(1-6) by (simp add: main_run py_range_upt)
  have "pin_loop e response (main_o_cpus N) (map int [0..<nat N]) ?st0 =
     (Inr (), ?st0\<lparr>affinity_calls := affinity_calls ?st0 @ map (\<lambda>i. (tids ! i, [int i])) [0..<nat N]\<rparr>)"
    using assms(7) by (intro pin_loop_all_ok) (auto simp add: main_o_cpus_index)
  with run show ?thesis by simp
qed

subsection \<open>The NUMA enumerator\<close>

text \<open>
  Claim C2. \<open>onlinecpu\<close> returns the CPU ids of node 0, sorted ascending, then those
  of node 1, sorted ascending, and so on up to the highest node index; it is a function
  of the topology alone (it takes and returns no \<open>run_state\<close>). On the host with nodes
  \<open>{0: [2,0], 1: [3,1]}\<close> the result is \<open>[0,2,1,3]\<close>.
\<close>

theorem onlinecpu_numa_order:
  "onlinecpu e = concat (map (\<lambda>node. sort (numa_node_to_cpus e node)) [0..numa_get_max_node e])
   \<and> onlinecpu (vm_env [111, 222] aff_ok) = [0, 2, 1, 3]"
proof
  show "onlinecpu e = concat (map (\<lambda>node. sort (numa_node_to_cpus e node)) [0..numa_get_max_node e])"
    by (simp add: onlinecpu_def node_loop_eq)
  show "onlinecpu (vm_env [111, 222] aff_ok) = [0, 2, 1, 3]"
    by code_simp
qed

subsection \<open>Which core a virtual CPU is pinned to\<close>

text \<open>
  Claim C1, as stated, fails: on the host with nodes \<open>{0: [2,0], 1: [3,1]}\<close>, with
  \<open>N = 2\<close> and thread ids \<open>[111, 222]\<close>, the NUMA order is \<open>[0,2,1,3]\<close>, so thread 222
  would have to be pinned to core 2; the script pins it to core 1.
\<close>

theorem numa_order_not_used_counterexample:
  "affinity_calls (snd (main (vm_env [111, 222] aff_ok) [''pin-cpu.py'', ''4444'', ''2'']))
     = [(111, [0]), (222, [1])]
   \<and> onlinecpu (vm_env [111, 222] aff_ok) ! 1 = 2
   \<and> affinity_calls (snd (main (vm_env [111, 222] aff_ok) [''pin-cpu.py'', ''4444'', ''2'']))
     \<noteq> [(111, [onlinecpu (vm_env [111, 222] aff_ok) ! 0]),
         (222, [onlinecpu (vm_env [111, 222] aff_ok) ! 1])]"
  by code_simp

text \<open>
  Claim C1, amended. For every \<open>N \<ge> 1\<close> and every response whose first \<open>N\<close> entries
  carry a thread id, when every affinity call returns, the run completes and the
  affinity calls made are exactly: thread of vCPU \<open>i\<close> restricted to core \<open>i\<close>, for
  \<open>i = 0, ..., N-1\<close> in this order. The core is the index \<open>i\<close>, the i-th entry of
  \<open>[0, ..., N-1]\<close>, not of the NUMA-enumerated list.
\<close>

theorem pins_thread_i_to_core_i:
  assumes "1 \<le> N"
    and "int_argv2 argv = Inr N"
    and "py_list_index argv 1 = Inr port"
    and "qmp_connect e (''localhost:'' @ port) = None"
    and "qmp_cmd e 0 ''query-cpus-fast'' = Inr shown"
    and "qmp_cmd e 1 ''query-cpus-fast'' = Inr answer"
    and "py_getitem answer (KStr ''return'') = Inr response"
    and "\<forall>i<nat N. thread_id response (int i) = Inr (tids ! i)"
    and "\<forall>i<nat N. psutil_cpu_affinity e i (tids ! i) [int i] = None"
  shows "fst (main e argv) = Inr ()
     \<and> affinity_calls (snd (main e argv)) = map (\<lambda>i. (tids ! i, [int i])) [0..<nat N]"
proof -
  let ?st0 = "\<lparr>connects = [''localhost:'' @ port],
      queries = [''query-cpus-fast'', ''query-cpus-fast''],
      stdout = [shown], stderr = [], affinity_calls = []\<rparr>"
  have run: "main e argv = pin_loop e response (main_o_cpus N) (map int [0..<nat N]) ?st0"
    using assms(2-7) by (simp add: main_run py_range_upt)
  have "pin_loop e response (main_o_cpus N) (map int [0..<nat N]) ?st0 =
     (Inr (), ?st0\<lparr>affinity_calls := affinity_calls ?st0 @ map (\<lambda>i. (tids ! i, [int i])) [0..<nat N]\<rparr>)"
    using assms(8,9) by (intro pin_loop_all_ok) (auto simp add: main_o_cpus_index)
  with run show ?thesis by simp
qed

text \<open>
  The instance \<open>N = 2\<close>, thread ids \<open>[111, 222]\<close>: thread 111 is restricted to core 0
  and thread 222 to core 1.
\<close>

theorem pins_thread_i_to_core_i_witness:
  "fst (main (vm_env [111, 222] aff_ok) [''pin-cpu.py'', ''4444'', ''2'']) = Inr ()
   \<and> affinity_calls (snd (main (vm_env [111, 222] aff_ok) [''pin-cpu.py'', ''4444'', ''2'']))
     = [(111, [0]), (222, [1])]"
proof -
  let ?argv = "[''pin-cpu.py'', ''4444'', ''2'']"
  let ?e = "vm_env [111, 222] aff_ok"
  let ?response = "JList [JDict [(''cpu-index'', JInt 0), (''thread-id'', JInt 111)],
                          JDict [(''cpu-index'', JInt 0), (''thread-id'', JInt 222)]]"
  have h1: "(1::int) \<le> 2" by simp
  have h2: "int_argv2 ?argv = Inr 2" by code_simp
  have h3: "py_list_index ?argv 1 = Inr ''4444''" by code_simp
  have h4: "qmp_connect ?e (''localhost:'' @ ''4444'') = None" by (simp add: vm_env_def)
  have h5: "qmp_cmd ?e 0 ''query-cpus-fast'' = Inr (cpus_fast [111, 222])" by (simp add: vm_env_def)
  have h6: "qmp_cmd ?e 1 ''query-cpus-fast'' = Inr (cpus_fast [111, 222])" by (simp add: vm_env_def)
  have h7: "py_getitem (cpus_fast [111, 222]) (KStr ''return'') = Inr ?response"
    by (simp add: cpus_fast_def)
  have t0: "thread_id ?response 0 = Inr 111" by (simp add: thread_id_def py_list_index_def)
  have t1: "thread_id ?response 1 = Inr 222" by (simp add: thread_id_def py_list_index_def)
  have h8: "\<forall>i<nat 2. thread_id ?response (int i) = Inr ([111, 222] ! i)"
    using t0 t1 by (simp add: less_Suc_eq nat_numeral numeral_2_eq_2)
  have h9: "\<forall>i<nat 2. psutil_cpu_affinity ?e i ([111, 222] ! i) [int i] = None"
    by (simp add: vm_env_def aff_ok_def)
  have up: "[0..<nat 2] = [0, 1]" by (simp add: nat_numeral numeral_2_eq_2)
  show ?thesis
    using pins_thread_i_to_core_i[OF h1 h2 h3 h4 h5 h6 h7 h8 h9] unfolding up by simp
qed

text \<open>
  Claim C3. For every \<open>N\<close> the target core list built by the main flow is
  \<open>[0, 1, ..., N-1]\<close>. In a run that reaches the loop, the k-th affinity call is for
  the thread of vCPU \<open>k\<close> (the thread id of \<open>response[k]\<close>) and names core \<open>k\<close>, and
  that call is made for every \<open>k < N\<close> whose thread id is there once the calls before
  it have returned. The run does not depend on the NUMA topology of the host (the main
  flow never calls \<open>onlinecpu\<close>): replacing the topology by any other leaves every run
  unchanged.
\<close>

theorem core_is_vcpu_index:
  assumes "py_list_index argv 1 = Inr port"
    and "qmp_connect e (''localhost:'' @ port) = None"
    and "qmp_cmd e 0 ''query-cpus-fast'' = Inr shown"
    and "qmp_cmd e 1 ''query-cpus-fast'' = Inr answer"
    and "py_getitem answer (KStr ''return'') = Inr response"
    and "int_argv2 argv = Inr N"
  shows "main_o_cpus N = map int [0..<nat N]
     \<and> (\<forall>k<length (affinity_calls (snd (main e argv))).
          thread_id response (int k) = Inr (fst (affinity_calls (snd (main e argv)) ! k))
          \<and> snd (affinity_calls (snd (main e argv)) ! k) = [int k])
     \<and> (\<forall>k<nat N. (\<forall>i<k. psutil_cpu_affinity e i (tids ! i) [int i] = None)
            \<and> (\<forall>i\<le>k. thread_id response (int i) = Inr (tids ! i))
          \<longrightarrow> k < length (affinity_calls (snd (main e argv))))
     \<and> map snd (affinity_calls (snd (main e' argv')))
         = map (\<lambda>k. [int k]) [0..<length (affinity_calls (snd (main e' argv')))]
     \<and> main (e'\<lparr>numa_get_max_node := m, numa_node_to_cpus := f\<rparr>) argv' = main e' argv'"
proof (intro conjI)
  show "main_o_cpus N = map int [0..<nat N]"
    by (simp add: main_o_cpus_def py_range_upt)
  show "\<forall>k<length (affinity_calls (snd (main e argv))).
          thread_id response (int k) = Inr (fst (affinity_calls (snd (main e argv)) ! k))
          \<and> snd (affinity_calls (snd (main e argv)) ! k) = [int k]"
    using main_calls[OF assms] by blast
  show "\<forall>k<nat N. (\<forall>i<k. psutil_cpu_affinity e i (tids ! i) [int i] = None)
            \<and> (\<forall>i\<le>k. thread_id response (int i) = Inr (tids ! i))
          \<longrightarrow> k < length (affinity_calls (snd (main e argv)))"
    using main_progress[OF assms] by blast
  from main_calls_shape[of e' argv'] obtain n r where
    "affinity_calls (snd (main e' argv')) = map (\<lambda>i. (projr (thread_id r (int i)), [int i])) [0..<n]"
    by blast
  then show "map snd (affinity_calls (snd (main e' argv')))
       = map (\<lambda>k. [int k]) [0..<length (affinity_calls (snd (main e' argv')))]"
    by (simp add: comp_def)
  show "main (e'\<lparr>numa_get_max_node := m, numa_node_to_cpus := f\<rparr>) argv' = main e' argv'"
    by (rule main_numa)
qed

text \<open>
  The instance \<open>N = 2\<close>, thread ids \<open>[111, 222]\<close>, on the two-node host whose NUMA order
  is \<open>[0,2,1,3]\<close>: the call for vCPU 1 is made, it is for thread 222 and names core 1.
\<close>

theorem core_is_vcpu_index_witness:
  "1 < length (affinity_calls (snd (main (vm_env [111, 222] aff_ok) [''pin-cpu.py'', ''4444'', ''2''])))
   \<and> fst (affinity_calls (snd (main (vm_env [111, 222] aff_ok) [''pin-cpu.py'', ''4444'', ''2''])) ! 1) = 222
   \<and> snd (affinity_calls (snd (main (vm_env [111, 222] aff_ok) [''pin-cpu.py'', ''4444'', ''2''])) ! 1) = [1]"
proof -
  let ?argv = "[''pin-cpu.py'', ''4444'', ''2'']"
  let ?e = "vm_env [111, 222] aff_ok"
  let ?response = "JList [JDict [(''cpu-index'', JInt 0), (''thread-id'', JInt 111)],
                          JDict [(''cpu-index'', JInt 0), (''thread-id'', JInt 222)]]"
  let ?calls = "affinity_calls (snd (main ?e ?argv))"
  have h1: "py_list_index ?argv 1 = Inr ''4444''" by code_simp
  have h2: "qmp_connect ?e (''localhost:'' @ ''4444'') = None" by (simp add: vm_env_def)
  have h3: "qmp_cmd ?e 0 ''query-cpus-fast'' = Inr (cpus_fast [111, 222])" by (simp add: vm_env_def)
  have h4: "qmp_cmd ?e 1 ''query-cpus-fast'' = Inr (cpus_fast [111, 222])" by (simp add: vm_env_def)
  have h5: "py_getitem (cpus_fast [111, 222]) (KStr ''return'') = Inr ?response"
    by (simp add: cpus_fast_def)
  have h6: "int_argv2 ?argv = Inr 2" by code_simp
  have t0: "thread_id ?response 0 = Inr 111" by (simp add: thread_id_def py_list_index_def)
  have t1: "thread_id ?response 1 = Inr 222" by (simp add: thread_id_def py_list_index_def)
  note T = core_is_vcpu_index[OF h1 h2 h3 h4 h5 h6, of "[111, 222]"]
  from T have shape: "\<forall>k<length ?calls.
      thread_id ?response (int k) = Inr (fst (?calls ! k)) \<and> snd (?calls ! k) = [int k]"
    by blast
  from T have progress: "\<forall>k<nat 2. (\<forall>i<k. psutil_cpu_affinity ?e i ([111, 222] ! i) [int i] = None)
            \<and> (\<forall>i\<le>k. thread_id ?response (int i) = Inr ([111, 222] ! i))
          \<longrightarrow> k < length ?calls"
    by blast
  have a: "\<forall>i<Suc 0. psutil_cpu_affinity ?e i ([111, 222] ! i) [int i] = None"
    by (simp add: vm_env_def aff_ok_def)
  have b: "\<forall>i\<le>Suc 0. thread_id ?response (int i) = Inr ([111, 222] ! i)"
    using t0 t1 by (simp add: le_Suc_eq)
  have len: "Suc 0 < length ?calls"
    using progress[rule_format, of "Suc 0"] a b by simp
  from shape[rule_format, OF len] t1 have "fst (?calls ! Suc 0) = 222 \<and> snd (?calls ! Suc 0) = [1]"
    by simp
  with len show ?thesis by simp
qed

subsection \<open>Failing affinity calls\<close>

text \<open>
  Claim C4, evaluated where the affinity call refuses core 1 as invalid (three virtual
  CPUs, \<open>N = 3\<close>). The \<open>ValueError\<close> is caught, but the handler's first statement raises
  a \<open>TypeError\<close>: the script writes nothing to the diagnostic stream and never reaches
  \<open>sys.exit(1)\<close>; the run ends by the uncaught \<open>TypeError\<close>. No affinity call is made
  for vCPU 2.
\<close>

theorem invalid_core_run:
  "fst (main (vm_env [111, 222, 333] aff_invalid_core) [''pin-cpu.py'', ''4444'', ''3''])
     = Inl (Raised (TypeError
         ''unsupported operand type(s) for >>: builtin_function_or_method and _io.TextIOWrapper''))
   \<and> fst (main (vm_env [111, 222, 333] aff_invalid_core) [''pin-cpu.py'', ''4444'', ''3''])
     \<noteq> Inl (Exited 1)
   \<and> stderr (snd (main (vm_env [111, 222, 333] aff_invalid_core) [''pin-cpu.py'', ''4444'', ''3'']))
     = []
   \<and> affinity_calls (snd (main (vm_env [111, 222, 333] aff_invalid_core) [''pin-cpu.py'', ''4444'', ''3'']))
     = [(111, [0]), (222, [1])]"
  by code_simp

text \<open>
  Claim C5, as stated, fails: when thread 222 does not exist, the error of the affinity
  call is not a \<open>ValueError\<close>, so \<open>pin_proc\<close> does not catch it: the run ends by that
  very error, uncaught, and the script prints nothing to the diagnostic stream.
\<close>

theorem missing_thread_not_caught_counterexample:
  "fst (main (vm_env [111, 222, 333] aff_no_thread) [''pin-cpu.py'', ''4444'', ''3''])
     = Inl (Raised (OtherError ''psutil.NoSuchProcess'' ''process no longer exists (pid=222)''))
   \<and> stderr (snd (main (vm_env [111, 222, 333] aff_no_thread) [''pin-cpu.py'', ''4444'', ''3'']))
     = []"
  by code_simp

text \<open>
  Claim C5, amended. When an affinity call raises an error that is not a \<open>ValueError\<close>
  (as \<open>psutil\<close> does for a thread id that does not exist), \<open>pin_proc\<close> does not catch
  it: the error propagates out of the loop at once, no later assignment is attempted,
  the script writes nothing, and the process ends with a non-zero status.
\<close>

theorem other_error_propagates:
  assumes "thread_id response i = Inr pid"
    and "py_list_index o_cpus i = Inr core"
    and "psutil_cpu_affinity e (length (affinity_calls st)) pid [core] = Some x"
    and "\<not> is_ValueError x"
  shows "pin_proc e pid core st
       = (Inl (Raised x), st\<lparr>affinity_calls := affinity_calls st @ [(pid, [core])]\<rparr>)
     \<and> pin_loop e response o_cpus (i # rest) st
       = (Inl (Raised x), st\<lparr>affinity_calls := affinity_calls st @ [(pid, [core])]\<rparr>)
     \<and> exit_status (Inl (Raised x)) \<noteq> 0"
  using assms by (simp add: loop_body_eq pin_proc_eq)

theorem other_error_propagates_witness:
  "pin_proc (vm_env [111, 222, 333] aff_no_thread) 222 1 init_state
     = (Inl (Raised (OtherError ''psutil.NoSuchProcess'' ''process no longer exists (pid=222)'')),
        init_state\<lparr>affinity_calls := [(222, [1])]\<rparr>)
   \<and> pin_loop (vm_env [111, 222, 333] aff_no_thread)
       (JList [JDict [(''thread-id'', JInt 111)], JDict [(''thread-id'', JInt 222)],
               JDict [(''thread-id'', JInt 333)]]) [0, 1, 2] [1, 2] init_state
     = (Inl (Raised (OtherError ''psutil.NoSuchProcess'' ''process no longer exists (pid=222)'')),
        init_state\<lparr>affinity_calls := [(222, [1])]\<rparr>)"
proof -
  let ?r = "JList [JDict [(''thread-id'', JInt 111)], JDict [(''thread-id'', JInt 222)],
               JDict [(''thread-id'', JInt 333)]]"
  let ?x = "OtherError ''psutil.NoSuchProcess'' ''process no longer exists (pid=222)''"
  have h1: "thread_id ?r 1 = Inr 222" by (simp add: thread_id_def py_list_index_def)
  have h2: "py_list_index [0, 1, 2 :: int] 1 = Inr 1" by (simp add: py_list_index_def)
  have h3: "psutil_cpu_affinity (vm_env [111, 222, 333] aff_no_thread)
      (length (affinity_calls init_state)) 222 [1] = Some ?x"
    by (simp add: vm_env_def aff_no_thread_def)
  have h4: "\<not> is_ValueError ?x" by simp
  show ?thesis
    using other_error_propagates[OF h1 h2 h3 h4, of "[2]"] by (simp add: init_state_def)
qed

text \<open>
  Claim C6. Whenever the affinity call raises a \<open>ValueError\<close>, the handler's first
  statement \<open>print >> sys.stderr, e\<close> raises a \<open>TypeError\<close> (Python 3: \<open>print\<close> is a
  built-in function, which does not support \<open>>>\<close>) before \<open>sys.exit(1)\<close> is reached:
  \<open>pin_proc\<close> ends by that \<open>TypeError\<close>, not by an exit, and nothing is written.
\<close>

theorem value_error_handler_raises_type_error:
  assumes "psutil_cpu_affinity e (length (affinity_calls st)) pid [core] = Some (ValueError msg)"
  shows "print_chevron_stmt (ValueError msg) st' = (Inl (Raised (TypeError
         ''unsupported operand type(s) for >>: builtin_function_or_method and _io.TextIOWrapper'')), st')
     \<and> pin_proc e pid core st = (Inl (Raised (TypeError
         ''unsupported operand type(s) for >>: builtin_function_or_method and _io.TextIOWrapper'')),
         st\<lparr>affinity_calls := affinity_calls st @ [(pid, [core])]\<rparr>)
     \<and> fst (pin_proc e pid core st) \<noteq> Inl (Exited 1)"
  using assms by (simp add: pin_proc_eq print_chevron_stmt_def seq_def pure_expr_def)

theorem value_error_handler_raises_type_error_witness:
  "pin_proc (vm_env [111, 222, 333] aff_invalid_core) 222 1 init_state = (Inl (Raised (TypeError
         ''unsupported operand type(s) for >>: builtin_function_or_method and _io.TextIOWrapper'')),
         init_state\<lparr>affinity_calls := [(222, [1])]\<rparr>)
   \<and> fst (pin_proc (vm_env [111, 222, 333] aff_invalid_core) 222 1 init_state) \<noteq> Inl (Exited 1)"
proof -
  have h: "psutil_cpu_affinity (vm_env [111, 222, 333] aff_invalid_core)
      (length (affinity_calls init_state)) 222 [1] = Some (ValueError ''invalid CPU 1; choose between [0]'')"
    by (simp add: vm_env_def aff_invalid_core_def)
  show ?thesis
    using value_error_handler_raises_type_error[OF h, of init_state] by (simp add: init_state_def)
qed

subsection \<open>A response shorter than \<open>N\<close>\<close>

text \<open>
  Claim C7. When the response lists fewer vCPU entries than \<open>N\<close>, the run ends by an
  uncaught exception, so with a non-zero status, and no more affinity calls are made
  than the response has entries (the k-th call is for index \<open>k\<close>, so none is for an index
  at or beyond the length). When moreover every entry carries a thread id and every
  affinity call returns, the exception is the \<open>IndexError\<close> of \<open>response[i]\<close> at
  \<open>i = len(response)\<close>, after one call for each entry.
\<close>

theorem short_response_raises:
  assumes "py_list_index argv 1 = Inr port"
    and "qmp_connect e (''localhost:'' @ port) = None"
    and "qmp_cmd e 0 ''query-cpus-fast'' = Inr shown"
    and "qmp_cmd e 1 ''query-cpus-fast'' = Inr answer"
    and "py_getitem answer (KStr ''return'') = Inr (JList entries)"
    and "int_argv2 argv = Inr N"
    and "int (length entries) < N"
  shows "(\<exists>x. fst (main e argv) = Inl (Raised x))
     \<and> exit_status (fst (main e argv)) \<noteq> 0
     \<and> length (affinity_calls (snd (main e argv))) \<le> length entries
     \<and> ((\<forall>i<length entries. thread_id (JList entries) (int i) = Inr (tids ! i)
            \<and> psutil_cpu_affinity e i (tids ! i) [int i] = None) \<longrightarrow>
         main e argv = (Inl (Raised (IndexError ''list index out of range'')),
           \<lparr>connects = [''localhost:'' @ port],
            queries = [''query-cpus-fast'', ''query-cpus-fast''],
            stdout = [shown], stderr = [],
            affinity_calls = map (\<lambda>i. (tids ! i, [int i])) [0..<length entries]\<rparr>))"
proof -
  let ?L = "length entries"
  let ?st0 = "\<lparr>connects = [''localhost:'' @ port],
      queries = [''query-cpus-fast'', ''query-cpus-fast''],
      stdout = [shown], stderr = [], affinity_calls = []\<rparr>"
  let ?loop = "pin_loop e (JList entries) (main_o_cpus N)"
  have run: "main e argv = ?loop (map int [0..<nat N]) ?st0"
    using assms(1-6) by (simp add: main_run py_range_upt)
  have LN: "?L < nat N" using assms(7) by simp
  have "int ?L \<in> set (map int [0..<nat N])" using LN by simp
  moreover have "thread_id (JList entries) (int ?L) = Inl (IndexError ''list index out of range'')"
    by (simp add: thread_id_beyond)
  ultimately have raised: "\<exists>x. fst (main e argv) = Inl (Raised x)"
    unfolding run by (rule pin_loop_raises)
  then have status: "exit_status (fst (main e argv)) \<noteq> 0" by auto
  have short: "length (affinity_calls (snd (main e argv))) \<le> ?L"
    unfolding run by (rule pin_loop_short_response) simp_all
  have exact: "main e argv = (Inl (Raised (IndexError ''list index out of range'')),
      ?st0\<lparr>affinity_calls := map (\<lambda>i. (tids ! i, [int i])) [0..<?L]\<rparr>)"
    if ok: "\<forall>i<?L. thread_id (JList entries) (int i) = Inr (tids ! i)
            \<and> psutil_cpu_affinity e i (tids ! i) [int i] = None"
  proof -
    have split: "[0..<nat N] = [0..<?L] @ ?L # [Suc ?L..<nat N]"
    proof -
      have a: "[0..<nat N] = [0..<?L] @ [?L..<nat N]"
        using LN upt_add_eq_append[of 0 ?L "nat N - ?L"] by simp
      have b: "[?L..<nat N] = ?L # [Suc ?L..<nat N]"
        using LN by (rule upt_conv_Cons)
      show ?thesis by (subst a, subst b) (rule refl)
    qed
    have first: "?loop (map int [0..<?L]) ?st0 =
        (Inr (), ?st0\<lparr>affinity_calls := affinity_calls ?st0 @ map (\<lambda>i. (tids ! i, [int i])) [0..<?L]\<rparr>)"
      using ok LN by (intro pin_loop_all_ok) (auto simp add: main_o_cpus_index)
    have "main e argv = ?loop (map int [0..<?L] @ int ?L # map int [Suc ?L..<nat N]) ?st0"
      unfolding run by (subst split) simp
    also have "\<dots> = (case ?loop (map int [0..<?L]) ?st0 of
          (Inl a, st') \<Rightarrow> (Inl a, st')
        | (Inr u, st') \<Rightarrow> ?loop (int ?L # map int [Suc ?L..<nat N]) st')"
      by (rule pin_loop_append)
    also have "\<dots> = (Inl (Raised (IndexError ''list index out of range'')),
        ?st0\<lparr>affinity_calls := map (\<lambda>i. (tids ! i, [int i])) [0..<?L]\<rparr>)"
      unfolding first by (simp add: loop_body_beyond)
    finally show ?thesis .
  qed
  from raised status short exact show ?thesis by simp
qed

theorem short_response_raises_witness:
  "main (vm_env [111] aff_ok) [''pin-cpu.py'', ''4444'', ''2'']
     = (Inl (Raised (IndexError ''list index out of range'')),
        \<lparr>connects = [''localhost:4444''],
         queries = [''query-cpus-fast'', ''query-cpus-fast''],
         stdout = [cpus_fast [111]], stderr = [],
         affinity_calls = [(111, [0])]\<rparr>)
   \<and> exit_status (fst (main (vm_env [111] aff_ok) [''pin-cpu.py'', ''4444'', ''2''])) \<noteq> 0"
proof -
  let ?argv = "[''pin-cpu.py'', ''4444'', ''2'']"
  let ?e = "vm_env [111] aff_ok"
  let ?entries = "[JDict [(''cpu-index'', JInt 0), (''thread-id'', JInt 111)]]"
  have h1: "py_list_index ?argv 1 = Inr ''4444''" by code_simp
  have h2: "qmp_connect ?e (''localhost:'' @ ''4444'') = None" by (simp add: vm_env_def)
  have h3: "qmp_cmd ?e 0 ''query-cpus-fast'' = Inr (cpus_fast [111])" by (simp add: vm_env_def)
  have h4: "qmp_cmd ?e 1 ''query-cpus-fast'' = Inr (cpus_fast [111])" by (simp add: vm_env_def)
  have h5: "py_getitem (cpus_fast [111]) (KStr ''return'') = Inr (JList ?entries)"
    by (simp add: cpus_fast_def)
  have h6: "int_argv2 ?argv = Inr 2" by code_simp
  have h7: "int (length ?entries) < 2" by simp
  have ok: "\<forall>i<length ?entries. thread_id (JList ?entries) (int i) = Inr ([111] ! i)
      \<and> psutil_cpu_affinity ?e i ([111] ! i) [int i] = None"
    by (simp add: thread_id_def py_list_index_def vm_env_def aff_ok_def)
  from short_response_raises[OF h1 h2 h3 h4 h5 h6 h7, of "[111]"] ok
  show ?thesis by simp
qed

subsection \<open>The query\<close>

text \<open>
  Claim C8, as stated, fails: in a complete run against a machine with two virtual CPUs
  the script sends the query command twice, not once.
\<close>

theorem one_query_counterexample:
  "queries (snd (main (vm_env [111, 222] aff_ok) [''pin-cpu.py'', ''4444'', ''2'']))
     = [''query-cpus-fast'', ''query-cpus-fast'']
   \<and> length (queries (snd (main (vm_env [111, 222] aff_ok) [''pin-cpu.py'', ''4444'', ''2'']))) \<noteq> 1"
  by code_simp

text \<open>
  Claim C8, amended. No run sends more than two commands. In every run that connects
  and gets an answer to its first query, the script sends \<open>query-cpus-fast\<close> exactly
  twice and prints the first answer to the standard output. The list of vCPU objects
  is the \<open>return\<close> member of the second answer: the thread of the k-th affinity call
  is the thread id of its k-th object, and when each of its first \<open>N\<close> objects carries
  a thread id and every affinity call returns, the threads pinned are exactly those
  \<open>N\<close> thread ids, in order.
\<close>

theorem two_queries:
  assumes "py_list_index argv 1 = Inr port"
    and "qmp_connect e (''localhost:'' @ port) = None"
    and "qmp_cmd e 0 ''query-cpus-fast'' = Inr shown"
  shows "queries (snd (main e argv)) = [''query-cpus-fast'', ''query-cpus-fast'']
     \<and> stdout (snd (main e argv)) = [shown]
     \<and> length (queries (snd (main e' argv'))) \<le> 2
     \<and> (qmp_cmd e 1 ''query-cpus-fast'' = Inr answer
          \<and> py_getitem answer (KStr ''return'') = Inr response
          \<and> int_argv2 argv = Inr N \<longrightarrow>
        (\<forall>k<length (affinity_calls (snd (main e argv))).
           thread_id response (int k) = Inr (fst (affinity_calls (snd (main e argv)) ! k)))
        \<and> ((\<forall>i<nat N. thread_id response (int i) = Inr (tids ! i)
               \<and> psutil_cpu_affinity e i (tids ! i) [int i] = None) \<longrightarrow>
           map fst (affinity_calls (snd (main e argv))) = map (\<lambda>i. tids ! i) [0..<nat N]))"
proof -
  have "queries (snd (main e argv)) = [''query-cpus-fast'', ''query-cpus-fast'']
     \<and> stdout (snd (main e argv)) = [shown]"
    using assms
    by (simp add: main_def seq_def pure_expr_def QMPQuery_def query_cmd_def py_print_def
        init_state_def Let_def pin_loop_frame split: sum.splits)
  moreover have "length (queries (snd (main e' argv'))) \<le> 2"
    using main_cases[of e' argv'] by (auto simp add: pin_loop_frame)
  moreover have "(\<forall>k<length (affinity_calls (snd (main e argv))).
           thread_id response (int k) = Inr (fst (affinity_calls (snd (main e argv)) ! k)))
        \<and> ((\<forall>i<nat N. thread_id response (int i) = Inr (tids ! i)
               \<and> psutil_cpu_affinity e i (tids ! i) [int i] = None) \<longrightarrow>
           map fst (affinity_calls (snd (main e argv))) = map (\<lambda>i. tids ! i) [0..<nat N])"
    if rest: "qmp_cmd e 1 ''query-cpus-fast'' = Inr answer"
      "py_getitem answer (KStr ''return'') = Inr response" "int_argv2 argv = Inr N"
  proof -
    note pre = assms rest
    have "map fst (affinity_calls (snd (main e argv))) = map (\<lambda>i. tids ! i) [0..<nat N]"
      if "\<forall>i<nat N. thread_id response (int i) = Inr (tids ! i)
               \<and> psutil_cpu_affinity e i (tids ! i) [int i] = None"
      using main_all_ok[OF pre that] by (simp add: comp_def)
    with main_calls[OF pre] show ?thesis by blast
  qed
  ultimately show ?thesis by blast
qed

text \<open>
  A machine whose second answer differs from the first: the first lists thread 111,
  the second thread 999. The first answer is printed; thread 999 is pinned.
\<close>

theorem two_queries_witness:
  "queries (snd (main (vm_env_changing [111] [999] aff_ok) [''pin-cpu.py'', ''4444'', ''1'']))
     = [''query-cpus-fast'', ''query-cpus-fast'']
   \<and> stdout (snd (main (vm_env_changing [111] [999] aff_ok) [''pin-cpu.py'', ''4444'', ''1'']))
     = [cpus_fast [111]]
   \<and> map fst (affinity_calls (snd (main (vm_env_changing [111] [999] aff_ok) [''pin-cpu.py'', ''4444'', ''1''])))
     = [999]"
proof -
  let ?argv = "[''pin-cpu.py'', ''4444'', ''1'']"
  let ?e = "vm_env_changing [111] [999] aff_ok"
  let ?response = "JList [JDict [(''cpu-index'', JInt 0), (''thread-id'', JInt 999)]]"
  have h1: "py_list_index ?argv 1 = Inr ''4444''" by code_simp
  have h2: "qmp_connect ?e (''localhost:'' @ ''4444'') = None" by (simp add: vm_env_changing_def)
  have h3: "qmp_cmd ?e 0 ''query-cpus-fast'' = Inr (cpus_fast [111])"
    by (simp add: vm_env_changing_def)
  have h4: "qmp_cmd ?e 1 ''query-cpus-fast'' = Inr (cpus_fast [999])"
    by (simp add: vm_env_changing_def)
  have h5: "py_getitem (cpus_fast [999]) (KStr ''return'') = Inr ?response"
    by (simp add: cpus_fast_def)
  have h6: "int_argv2 ?argv = Inr 1" by code_simp
  have ok: "\<forall>i<nat 1. thread_id ?response (int i) = Inr ([999] ! i)
      \<and> psutil_cpu_affinity ?e i ([999] ! i) [int i] = None"
    by (simp add: thread_id_def py_list_index_def vm_env_changing_def aff_ok_def)
  note T = two_queries[OF h1 h2 h3, of _ _ "cpus_fast [999]" ?response 1 "[999]"]
  from T have q: "queries (snd (main ?e ?argv)) = [''query-cpus-fast'', ''query-cpus-fast'']
      \<and> stdout (snd (main ?e ?argv)) = [cpus_fast [111]]"
    by blast
  from T h4 h5 h6 ok have "map fst (affinity_calls (snd (main ?e ?argv))) = map (\<lambda>i. [999] ! i) [0..<nat 1]"
    by blast
  then have "map fst (affinity_calls (snd (main ?e ?argv))) = [999]" by simp
  with q show ?thesis by blast
qed

subsection \<open>The command line\<close>

text \<open>
  Claim C9. With \<open>N = 0\<close>, when the endpoint answers (the connection and both queries
  succeed and the second answer has a \<open>return\<close> member), the run completes with no
  affinity call at all and the process ends with status 0.
\<close>

theorem no_pinning_for_zero:
  assumes "py_list_index argv 1 = Inr port"
    and "qmp_connect e (''localhost:'' @ port) = None"
    and "qmp_cmd e 0 ''query-cpus-fast'' = Inr shown"
    and "qmp_cmd e 1 ''query-cpus-fast'' = Inr answer"
    and "py_getitem answer (KStr ''return'') = Inr response"
    and "int_argv2 argv = Inr 0"
  shows "fst (main e argv) = Inr ()
     \<and> affinity_calls (snd (main e argv)) = []
     \<and> exit_status (fst (main e argv)) = 0"
  using main_run[OF assms] by (simp add: py_range_def)

theorem no_pinning_for_zero_witness:
  "fst (main (vm_env [111, 222] aff_ok) [''pin-cpu.py'', ''4444'', ''0'']) = Inr ()
   \<and> affinity_calls (snd (main (vm_env [111, 222] aff_ok) [''pin-cpu.py'', ''4444'', ''0''])) = []
   \<and> exit_status (fst (main (vm_env [111, 222] aff_ok) [''pin-cpu.py'', ''4444'', ''0''])) = 0"
proof -
  let ?argv = "[''pin-cpu.py'', ''4444'', ''0'']"
  let ?e = "vm_env [111, 222] aff_ok"
  have h1: "py_list_index ?argv 1 = Inr ''4444''" by code_simp
  have h2: "qmp_connect ?e (''localhost:'' @ ''4444'') = None" by (simp add: vm_env_def)
  have h3: "qmp_cmd ?e 0 ''query-cpus-fast'' = Inr (cpus_fast [111, 222])" by (simp add: vm_env_def)
  have h4: "qmp_cmd ?e 1 ''query-cpus-fast'' = Inr (cpus_fast [111, 222])" by (simp add: vm_env_def)
  have h5: "py_getitem (cpus_fast [111, 222]) (KStr ''return'') =
      Inr (JList (map (\<lambda>t. JDict [(''cpu-index'', JInt 0), (''thread-id'', JInt t)]) [111, 222]))"
    by (simp add: cpus_fast_def)
  have h6: "int_argv2 ?argv = Inr 0" by code_simp
  from no_pinning_for_zero[OF h1 h2 h3 h4 h5 h6] show ?thesis .
qed

text \<open>
  Claim C10. The first argument is the port: the one connection made is to
  \<open>localhost:<port>\<close>. The second is \<open>N\<close>: at most \<open>N\<close> affinity calls are made, each
  for a core index \<open>i\<close> with \<open>0 \<le> i < N\<close>. In a run that reaches the loop, each call
  pins the thread of the vCPU of that index (the thread id of \<open>response[i]\<close>), and when
  each of the first \<open>N\<close> vCPUs carries a thread id and every affinity call returns,
  the calls are exactly those for the indices \<open>0, ..., N-1\<close>, in order.
\<close>

theorem main_arguments:
  assumes "py_list_index argv 1 = Inr port"
    and "int_argv2 argv = Inr N"
  shows "connects (snd (main e argv)) = [''localhost:'' @ port]
     \<and> length (affinity_calls (snd (main e argv))) \<le> nat N
     \<and> (\<forall>c \<in> set (affinity_calls (snd (main e argv))). \<exists>i. 0 \<le> i \<and> i < N \<and> snd c = [i])
     \<and> (qmp_connect e (''localhost:'' @ port) = None
          \<and> qmp_cmd e 0 ''query-cpus-fast'' = Inr shown
          \<and> qmp_cmd e 1 ''query-cpus-fast'' = Inr answer
          \<and> py_getitem answer (KStr ''return'') = Inr response \<longrightarrow>
        (\<forall>c \<in> set (affinity_calls (snd (main e argv))).
           \<exists>i. 0 \<le> i \<and> i < N \<and> thread_id response i = Inr (fst c) \<and> snd c = [i])
        \<and> ((\<forall>i<nat N. thread_id response (int i) = Inr (tids ! i)
               \<and> psutil_cpu_affinity e i (tids ! i) [int i] = None) \<longrightarrow>
           affinity_calls (snd (main e argv)) = map (\<lambda>i. (tids ! i, [int i])) [0..<nat N]))"
proof -
  let ?calls = "affinity_calls (snd (main e argv))"
  have conn: "connects (snd (main e argv)) = [''localhost:'' @ port]"
    using assms(1)
    by (simp add: main_def seq_def pure_expr_def QMPQuery_def query_cmd_def py_print_def
        init_state_def Let_def pin_loop_frame split: sum.splits option.splits)
  from main_calls_shape[of e argv] assms(2) obtain n r where
    calls: "?calls = map (\<lambda>i. (projr (thread_id r (int i)), [int i])) [0..<n]"
    and n: "n \<le> nat N"
    by blast
  have cores: "\<exists>i. 0 \<le> i \<and> i < N \<and> snd c = [i]" if "c \<in> set ?calls" for c
  proof -
    from that calls obtain k where "k < n" and "c = (projr (thread_id r (int k)), [int k])"
      by auto
    with n show ?thesis by (intro exI[of _ "int k"]) auto
  qed
  have loop: "(\<forall>c \<in> set ?calls. \<exists>i. 0 \<le> i \<and> i < N \<and> thread_id response i = Inr (fst c) \<and> snd c = [i])
        \<and> ((\<forall>i<nat N. thread_id response (int i) = Inr (tids ! i)
               \<and> psutil_cpu_affinity e i (tids ! i) [int i] = None) \<longrightarrow>
           ?calls = map (\<lambda>i. (tids ! i, [int i])) [0..<nat N])"
    if rest: "qmp_connect e (''localhost:'' @ port) = None"
      "qmp_cmd e 0 ''query-cpus-fast'' = Inr shown"
      "qmp_cmd e 1 ''query-cpus-fast'' = Inr answer"
      "py_getitem answer (KStr ''return'') = Inr response"
  proof -
    note pre = assms(1) rest assms(2)
    note mc = main_calls[OF pre]
    have "\<exists>i. 0 \<le> i \<and> i < N \<and> thread_id response i = Inr (fst c) \<and> snd c = [i]"
      if "c \<in> set ?calls" for c
    proof -
      from that obtain k where k: "k < length ?calls" and c: "c = ?calls ! k"
        by (auto simp add: in_set_conv_nth)
      with mc have "thread_id response (int k) = Inr (fst c) \<and> snd c = [int k]" by blast
      moreover from k mc have "int k < N" by auto
      ultimately show ?thesis by (intro exI[of _ "int k"]) simp
    qed
    moreover have "?calls = map (\<lambda>i. (tids ! i, [int i])) [0..<nat N]"
      if "\<forall>i<nat N. thread_id response (int i) = Inr (tids ! i)
               \<and> psutil_cpu_affinity e i (tids ! i) [int i] = None"
      using main_all_ok[OF pre that] .
    ultimately show ?thesis by blast
  qed
  from conn calls n cores loop show ?thesis by simp
qed

text \<open>
  The instance: port 4444, \<open>N = 2\<close>, a machine with three virtual CPUs. The connection
  is to \<open>localhost:4444\<close> and the calls are those for vCPUs 0 and 1 only.
\<close>

theorem main_arguments_witness:
  "connects (snd (main (vm_env [111, 222, 333] aff_ok) [''pin-cpu.py'', ''4444'', ''2'']))
     = [''localhost:4444'']
   \<and> affinity_calls (snd (main (vm_env [111, 222, 333] aff_ok) [''pin-cpu.py'', ''4444'', ''2'']))
     = [(111, [0]), (222, [1])]"
proof -
  let ?argv = "[''pin-cpu.py'', ''4444'', ''2'']"
  let ?e = "vm_env [111, 222, 333] aff_ok"
  let ?response = "JList [JDict [(''cpu-index'', JInt 0), (''thread-id'', JInt 111)],
                          JDict [(''cpu-index'', JInt 0), (''thread-id'', JInt 222)],
                          JDict [(''cpu-index'', JInt 0), (''thread-id'', JInt 333)]]"
  have h1: "py_list_index ?argv 1 = Inr ''4444''" by code_simp
  have h2: "int_argv2 ?argv = Inr 2" by code_simp
  have h3: "qmp_connect ?e (''localhost:'' @ ''4444'') = None" by (simp add: vm_env_def)
  have h4: "qmp_cmd ?e 0 ''query-cpus-fast'' = Inr (cpus_fast [111, 222, 333])"
    by (simp add: vm_env_def)
  have h5: "qmp_cmd ?e 1 ''query-cpus-fast'' = Inr (cpus_fast [111, 222, 333])"
    by (simp add: vm_env_def)
  have h6: "py_getitem (cpus_fast [111, 222, 333]) (KStr ''return'') = Inr ?response"
    by (simp add: cpus_fast_def)
  have t0: "thread_id ?response 0 = Inr 111" by (simp add: thread_id_def py_list_index_def)
  have t1: "thread_id ?response 1 = Inr 222" by (simp add: thread_id_def py_list_index_def)
  have ok: "\<forall>i<nat 2. thread_id ?response (int i) = Inr ([111, 222] ! i)
      \<and> psutil_cpu_affinity ?e i ([111, 222] ! i) [int i] = None"
    using t0 t1 by (simp add: less_Suc_eq nat_numeral numeral_2_eq_2 vm_env_def aff_ok_def)
  have up: "[0..<nat 2] = [0, 1]" by (simp add: nat_numeral numeral_2_eq_2)
  note T = main_arguments[OF h1 h2, of ?e "cpus_fast [111, 222, 333]" "cpus_fast [111, 222, 333]"
      ?response "[111, 222]"]
  from T have c: "connects (snd (main ?e ?argv)) = [''localhost:'' @ ''4444'']" by blast
  from T h3 h4 h5 h6 ok have "affinity_calls (snd (main ?e ?argv)) =
      map (\<lambda>i. ([111, 222] ! i, [int i])) [0..<nat 2]"
    by blast
  then have "affinity_calls (snd (main ?e ?argv)) = [(111, [0]), (222, [1])]"
    unfolding up by simp
  with c show ?thesis by simp
qed

end
